theory Spec2Isabelle
  imports Main "HOL-Library.Multiset"
begin

section \<open>Data model of \<^verbatim>\<open>src/chatbot/database.py\<close>\<close>

text \<open>
  Timestamps (\<^verbatim>\<open>datetime\<close>) are integers counting microseconds, the resolution of
  Python's \<^verbatim>\<open>datetime\<close>; \<^verbatim>\<open>timedelta(minutes=1)\<close> is \<open>minute\<close>. The call
  \<^verbatim>\<open>replace(tzinfo=None)\<close> keeps the clock reading, so it is the identity here.
  The clock (\<^verbatim>\<open>datetime.now()\<close>) is an explicit argument \<open>now\<close>. A clock reading
  is a date later than the first minute of year 1, so the \<^verbatim>\<open>minute_ago\<close> of
  \<^verbatim>\<open>check_spam\<close> is always in range; the cutoff of \<^verbatim>\<open>get_history_of_chat\<close> depends on
  the caller's argument and is checked against the range of dates.
\<close>

definition minute :: int where
  "minute = 60000000"

text \<open>
  Class \<^verbatim>\<open>QuestionAnswer\<close>. The attribute \<^verbatim>\<open>id\<close> is \<open>qa_id\<close> (it is \<^verbatim>\<open>None\<close> on an
  object that has no primary key yet); \<^verbatim>\<open>answer\<close> is \<^verbatim>\<open>Optional[str]\<close>.
\<close>

record question_answer =
  qa_id :: "int option"
  question :: string
  answer :: "string option"
  confluence_url :: "string option"
  score :: "int option"
  user_id :: int
  created_at :: int
  stop_point :: bool

text \<open>Class \<^verbatim>\<open>User\<close>; the attribute \<^verbatim>\<open>id\<close> is \<open>u_id\<close>.\<close>

record user =
  u_id :: int
  max_id :: "int option"
  is_subscribed :: bool

text \<open>
  The relational store behind \<^verbatim>\<open>Engine\<close>: the rows of the two tables in insertion
  order, the next key of table \<^verbatim>\<open>user\<close>, and the key the store generates for the next
  row of table \<^verbatim>\<open>question_answer\<close> (\<open>None\<close> when it generates none).
\<close>

record database =
  users :: "user list"
  question_answers :: "question_answer list"
  user_seq :: int
  qa_seq :: "int option"

text \<open>
  Faults raised by the code itself and by the library calls it makes on its arguments:
  reading an unassigned local variable, date arithmetic that leaves the range of
  \<^verbatim>\<open>timedelta\<close> or \<^verbatim>\<open>datetime\<close>, and \<^verbatim>\<open>session.flush()\<close> on an object for which the
  store generated no primary key. Faults of the infrastructure (a lost connection) are
  outside the model.
\<close>

datatype error = UnboundLocalError | OverflowError | FlushError

section \<open>Date arithmetic\<close>

text \<open>
  A clock reading counts microseconds from 1970-01-01T00:00:00. \<^verbatim>\<open>datetime.min\<close> is
  0001-01-01T00:00:00 and \<^verbatim>\<open>datetime.max\<close> is 9999-12-31T23:59:59.999999;
  \<^verbatim>\<open>timedelta.min\<close> is -999999999 days and \<^verbatim>\<open>timedelta.max\<close> is one microsecond less
  than 1000000000 days.
\<close>

definition datetime_min :: int where
  "datetime_min = - 62135596800000000"

definition datetime_max :: int where
  "datetime_max = 253402300799999999"

definition timedelta_min :: int where
  "timedelta_min = - 86399999913600000000"

definition timedelta_max :: int where
  "timedelta_max = 86399999999999999999"

text \<open>\<^verbatim>\<open>timedelta(minutes=m)\<close> raises \<^verbatim>\<open>OverflowError\<close> outside the range of durations.\<close>

definition timedelta_minutes :: "int \<Rightarrow> error + int" where
  "timedelta_minutes m =
     (if timedelta_min \<le> m * minute \<and> m * minute \<le> timedelta_max
      then Inr (m * minute) else Inl OverflowError)"

text \<open>\<^verbatim>\<open>d - delta\<close> on a \<^verbatim>\<open>datetime\<close> raises \<^verbatim>\<open>OverflowError\<close> outside the range of dates.\<close>

definition datetime_sub :: "int \<Rightarrow> int \<Rightarrow> error + int" where
  "datetime_sub d delta =
     (if datetime_min \<le> d - delta \<and> d - delta \<le> datetime_max
      then Inr (d - delta) else Inl OverflowError)"

section \<open>Queries\<close>

text \<open>\<^verbatim>\<open>select(User).where(User.id == user_id)\<close>, first row or \<^verbatim>\<open>None\<close>.\<close>

definition user_by_id :: "database \<Rightarrow> int \<Rightarrow> user option" where
  "user_by_id db uid = find (\<lambda>u. u_id u = uid) (users db)"

text \<open>\<^verbatim>\<open>select(User).where(User.max_id == max_id)\<close>, first row or \<^verbatim>\<open>None\<close>.\<close>

definition user_by_max_id :: "database \<Rightarrow> int \<Rightarrow> user option" where
  "user_by_max_id db m = find (\<lambda>u. max_id u = Some m) (users db)"

text \<open>The rows of \<^verbatim>\<open>question_answer\<close> owned by a user, in table order.\<close>

definition rows_of_user :: "database \<Rightarrow> int \<Rightarrow> question_answer list" where
  "rows_of_user db uid = [qa \<leftarrow> question_answers db. user_id qa = uid]"

text \<open>
  The query of \<^verbatim>\<open>get_history_of_chat\<close>: the user's rows with
  \<^verbatim>\<open>created_at >= cutoff_time\<close>, \<^verbatim>\<open>order_by(QuestionAnswer.created_at.asc())\<close>.
\<close>

definition recent_qa_query :: "database \<Rightarrow> int \<Rightarrow> int \<Rightarrow> question_answer list" where
  "recent_qa_query db uid cutoff_time =
     sort_key created_at
       [qa \<leftarrow> question_answers db. user_id qa = uid \<and> cutoff_time \<le> created_at qa]"

text \<open>
  The relationship \<^verbatim>\<open>User.question_answers\<close>, loaded with
  \<^verbatim>\<open>order_by="desc(QuestionAnswer.created_at)"\<close>.
\<close>

definition user_question_answers :: "database \<Rightarrow> user \<Rightarrow> question_answer list" where
  "user_question_answers db u = sort_key (\<lambda>qa. - created_at qa) (rows_of_user db (u_id u))"

text \<open>Writing a changed \<^verbatim>\<open>User\<close> object back on commit: its row is replaced.\<close>

fun commit_user :: "user \<Rightarrow> user list \<Rightarrow> user list" where
  "commit_user u' [] = []"
| "commit_user u' (u # us) = (if u_id u = u_id u' then u' # us else u # commit_user u' us)"

text \<open>
  The Python slice \<^verbatim>\<open>xs[i:]\<close>: a negative start counts from the end and is clamped
  at the front.
\<close>

definition py_slice_from :: "int \<Rightarrow> 'a list \<Rightarrow> 'a list" where
  "py_slice_from i xs =
     (if 0 \<le> i then drop (nat i) xs else drop (nat (int (length xs) + i)) xs)"

section \<open>Operations\<close>

text \<open>
  \<^verbatim>\<open>add_user\<close>. The local variable \<^verbatim>\<open>user\<close> is assigned only under
  \<^verbatim>\<open>if max_id is not None\<close>: \<open>user_var\<close> is \<open>None\<close> while it is unbound, and reading
  it then raises \<^verbatim>\<open>UnboundLocalError\<close>.
\<close>

definition add_user :: "database \<Rightarrow> int option \<Rightarrow> error + (database \<times> bool \<times> int)" where
  "add_user db mid =
     (let user_var = (case mid of
                        Some m \<Rightarrow> Some (user_by_max_id db m)
                      | None \<Rightarrow> None)
      in case user_var of
           None \<Rightarrow> Inl UnboundLocalError
         | Some None \<Rightarrow>
             (let new_user = \<lparr>u_id = user_seq db, max_id = mid, is_subscribed = True\<rparr>
              in Inr (db\<lparr>users := users db @ [new_user], user_seq := user_seq db + 1\<rparr>,
                      True, u_id new_user))
         | Some (Some found) \<Rightarrow> Inr (db, False, u_id found))"

text \<open>\<^verbatim>\<open>subscribe_user\<close>.\<close>

definition subscribe_user :: "database \<Rightarrow> int \<Rightarrow> error + (database \<times> bool)" where
  "subscribe_user db uid =
     (case user_by_id db uid of
        None \<Rightarrow> Inr (db, False)
      | Some found \<Rightarrow>
          (let toggled = found\<lparr>is_subscribed := \<not> is_subscribed found\<rparr>
           in Inr (db\<lparr>users := commit_user toggled (users db)\<rparr>, is_subscribed toggled)))"

text \<open>\<^verbatim>\<open>check_spam\<close>.\<close>

definition check_spam :: "database \<Rightarrow> int \<Rightarrow> int \<Rightarrow> error + bool" where
  "check_spam db now uid =
     (case user_by_id db uid of
        None \<Rightarrow> Inr False
      | Some found \<Rightarrow>
          (let qas = user_question_answers db found
           in if 5 < length qas
              then (let minute_ago = now - minute;
                        fifth_message_date = created_at (qas ! 4)
                    in Inr (minute_ago < fifth_message_date))
              else Inr False))"

text \<open>
  \<^verbatim>\<open>session.add(obj); session.flush(); session.refresh(obj)\<close> on a new
  \<^verbatim>\<open>QuestionAnswer\<close>: the row is inserted and the object gets the generated primary
  key. When the store generates none, \<^verbatim>\<open>flush\<close> raises \<^verbatim>\<open>FlushError\<close> (the instance
  has a NULL identity key) and nothing is stored.
\<close>

definition session_flush ::
  "database \<Rightarrow> question_answer \<Rightarrow> error + (database \<times> question_answer)" where
  "session_flush db obj =
     (case qa_seq db of
        None \<Rightarrow> Inl FlushError
      | Some i \<Rightarrow>
          (let stored = obj\<lparr>qa_id := Some i\<rparr>
           in Inr (db\<lparr>question_answers := question_answers db @ [stored],
                      qa_seq := Some (i + 1)\<rparr>, stored)))"

text \<open>
  \<^verbatim>\<open>add_question_answer\<close>. The new object has no \<^verbatim>\<open>id\<close> yet; its row gets
  \<^verbatim>\<open>created_at\<close> from the store's clock (\<open>now\<close>) and the default
  \<^verbatim>\<open>stop_point=False\<close>. The test \<^verbatim>\<open>question_answer.id is None\<close> comes after the
  flush.
\<close>

definition add_question_answer ::
  "database \<Rightarrow> int \<Rightarrow> string \<Rightarrow> string \<Rightarrow> string option \<Rightarrow> int \<Rightarrow> error + (database \<times> int)" where
  "add_question_answer db now q a url uid =
     (let new_qa = \<lparr>qa_id = None, question = q, answer = Some a, confluence_url = url,
                    score = None, user_id = uid, created_at = now, stop_point = False\<rparr>
      in case session_flush db new_qa of
           Inl e \<Rightarrow> Inl e
         | Inr (db', question_answer) \<Rightarrow>
             (case qa_id question_answer of
                None \<Rightarrow> Inr (db', 0)
              | Some i \<Rightarrow> Inr (db', i)))"

text \<open>
  \<^verbatim>\<open>get_history_of_chat\<close>. The user is looked up first; then
  \<^verbatim>\<open>cutoff_time = now - timedelta(minutes=time)\<close> may raise \<^verbatim>\<open>OverflowError\<close>. The
  comparisons \<^verbatim>\<open>qa.answer != ""\<close> and \<^verbatim>\<open>qa.answer == ""\<close> are on \<^verbatim>\<open>Optional[str]\<close>:
  \<^verbatim>\<open>None != ""\<close> is true.
\<close>

definition get_history_of_chat ::
  "database \<Rightarrow> int \<Rightarrow> int \<Rightarrow> int \<Rightarrow> int \<Rightarrow> error + question_answer list" where
  "get_history_of_chat db now uid time limit_pairs =
     (case user_by_id db uid of
        None \<Rightarrow> Inr []
      | Some found \<Rightarrow>
          (case timedelta_minutes time of
             Inl e \<Rightarrow> Inl e
           | Inr delta \<Rightarrow>
               (case datetime_sub now delta of
                  Inl e \<Rightarrow> Inl e
                | Inr cutoff_time \<Rightarrow>
                    (let recent_qa = recent_qa_query db (u_id found) cutoff_time;
                         full_pairs = [qa \<leftarrow> recent_qa. answer qa \<noteq> Some ''''];
                         full_pairs = (if limit_pairs < int (length full_pairs)
                                       then py_slice_from (- limit_pairs) full_pairs
                                       else full_pairs);
                         unanswered = [qa \<leftarrow> recent_qa. answer qa = Some '''']
                     in Inr (full_pairs @ unanswered)))))"

text \<open>\<^verbatim>\<open>filter_chat_history\<close>, a pure function of the list.\<close>

definition filter_chat_history ::
  "question_answer list \<Rightarrow> question_answer list \<times> question_answer list" where
  "filter_chat_history history =
     (if history = [] then ([], [])
      else
        (let stop_indices = [int i. (i, qa) \<leftarrow> List.enumerate 0 history, stop_point qa];
             last_stop_idx = (if stop_indices \<noteq> [] then last stop_indices else - 1);
             trimmed_history = (if last_stop_idx \<noteq> - 1
                                then py_slice_from (last_stop_idx + 1) history
                                else history);
             pairs = [qa \<leftarrow> trimmed_history. answer qa \<noteq> Some ''''];
             unanswered = [qa \<leftarrow> trimmed_history. answer qa = Some '''']
         in case pairs of
              [] \<Rightarrow> ([], unanswered)
            | p # ps \<Rightarrow>
                (let last_answer_time = fold max (map created_at ps) (created_at p);
                     filtered_unanswered =
                       [qa \<leftarrow> unanswered. last_answer_time < created_at qa]
                 in (pairs, filtered_unanswered))))"

section \<open>Notions of the specification\<close>

text \<open>
  What the caller of a repository operation sees: the fault, or the returned value
  without the store.
\<close>

definition returned :: "error + (database \<times> 'a) \<Rightarrow> error + 'a" where
  "returned r = map_sum id snd r"

text \<open>
  The specification's reading of a turn: it is answered when its answer is a non-empty
  string, and unanswered when the answer is the empty string or absent.
\<close>

definition answered :: "question_answer \<Rightarrow> bool" where
  "answered q = (case answer q of None \<Rightarrow> False | Some s \<Rightarrow> s \<noteq> '''')"

text \<open>
  Stage B of the specification on the turns after the last boundary: the answered
  pairs, and the unanswered turns, all of them when there is no pair and otherwise those
  created strictly after the latest pair.
\<close>

definition segment :: "question_answer list \<Rightarrow> question_answer list \<times> question_answer list" where
  "segment suf =
     ([q \<leftarrow> suf. answered q],
      if [q \<leftarrow> suf. answered q] = []
      then [q \<leftarrow> suf. \<not> answered q]
      else [q \<leftarrow> suf. \<not> answered q \<and>
              Max (created_at ` set [q \<leftarrow> suf. answered q]) < created_at q])"

text \<open>
  \<open>t\<close> is the creation time of the \<open>k\<close>-th most recent of the turns \<open>qs\<close>: a turn was
  created at \<open>t\<close>, fewer than \<open>k\<close> turns are later, and at least \<open>k\<close> turns are not
  earlier. No order of the list is involved.
\<close>

definition kth_most_recent :: "nat \<Rightarrow> question_answer list \<Rightarrow> int \<Rightarrow> bool" where
  "kth_most_recent k qs t \<longleftrightarrow>
     t \<in> created_at ` set qs \<and>
     length [q \<leftarrow> qs. t < created_at q] < k \<and>
     k \<le> length [q \<leftarrow> qs. t \<le> created_at q]"

text \<open>The indices collected by the comprehension \<^verbatim>\<open>stop_indices\<close>, from a start index.\<close>

definition stop_idx :: "nat \<Rightarrow> question_answer list \<Rightarrow> int list" where
  "stop_idx n xs = [int i. (i, qa) \<leftarrow> List.enumerate n xs, stop_point qa]"

section \<open>Sample data\<close>

text \<open>A turn of user 1 with a key, an answer, a creation time and a boundary flag.\<close>

definition turn :: "int \<Rightarrow> string option \<Rightarrow> int \<Rightarrow> bool \<Rightarrow> question_answer" where
  "turn i a t b = \<lparr>qa_id = Some i, question = ''q'', answer = a, confluence_url = None,
                    score = None, user_id = 1, created_at = t, stop_point = b\<rparr>"

definition alice :: user where
  "alice = \<lparr>u_id = 1, max_id = Some 7, is_subscribed = True\<rparr>"

definition store_empty :: database where
  "store_empty = \<lparr>users = [], question_answers = [], user_seq = 1, qa_seq = Some 1\<rparr>"

definition store_alice :: database where
  "store_alice = \<lparr>users = [alice], question_answers = [], user_seq = 2, qa_seq = Some 1\<rparr>"

text \<open>A store that generates no key for the next row of \<^verbatim>\<open>question_answer\<close>.\<close>

definition store_no_key :: database where
  "store_no_key = \<lparr>users = [alice], question_answers = [], user_seq = 2, qa_seq = None\<rparr>"

text \<open>The evaluation time of the samples: 2000 seconds.\<close>

definition now0 :: int where
  "now0 = 2000000000"

text \<open>
  A closed conversation (a boundary turn), then an unanswered question, an answer and a
  later unanswered question.
\<close>

definition t_b :: question_answer where
  "t_b = turn 1 (Some ''x'') 1 True"

definition t_q1 :: question_answer where
  "t_q1 = turn 2 (Some '''') 2 False"

definition t_a1 :: question_answer where
  "t_a1 = turn 3 (Some ''y'') 3 False"

definition t_q2 :: question_answer where
  "t_q2 = turn 4 (Some '''') 4 False"

text \<open>
  An unanswered question with the empty answer, then a later turn whose answer is
  absent; no boundary.
\<close>

definition s_q :: question_answer where
  "s_q = turn 1 (Some '''') 3 False"

definition s_p :: question_answer where
  "s_p = turn 2 None 5 False"

text \<open>Two turns whose answer is absent (\<^verbatim>\<open>None\<close>), and a store holding them.\<close>

definition t_pending :: question_answer where
  "t_pending = turn 1 None 1900000000 False"

definition t_pending2 :: question_answer where
  "t_pending2 = turn 2 None 1950000000 False"

definition store_pending :: database where
  "store_pending = \<lparr>users = [alice], question_answers = [t_pending, t_pending2],
                     user_seq = 2, qa_seq = Some 3\<rparr>"

text \<open>Two answered turns and an unanswered one, all within the last 30 minutes of \<open>now0\<close>.\<close>

definition c_a1 :: question_answer where
  "c_a1 = turn 1 (Some ''x'') 1000000000 False"

definition c_a2 :: question_answer where
  "c_a2 = turn 2 (Some ''y'') 1100000000 False"

definition c_q :: question_answer where
  "c_q = turn 3 (Some '''') 1200000000 False"

definition store_chat :: database where
  "store_chat = \<lparr>users = [alice], question_answers = [c_a1, c_a2, c_q],
                  user_seq = 2, qa_seq = Some 4\<rparr>"

text \<open>
  Six turns asked 65, 50, 40, 30, 20 and 5 seconds before \<open>now0\<close>, the example of
  the specification.
\<close>

definition store_burst :: database where
  "store_burst = \<lparr>users = [alice],
     question_answers = [turn 1 (Some ''a'') 1935000000 False, turn 2 (Some ''a'') 1950000000 False,
                         turn 3 (Some ''a'') 1960000000 False, turn 4 (Some ''a'') 1970000000 False,
                         turn 5 (Some ''a'') 1980000000 False, turn 6 (Some ''a'') 1995000000 False],
     user_seq = 2, qa_seq = Some 7\<rparr>"

section \<open>Segmentation\<close>

lemma stop_idx_append: "stop_idx n (xs @ ys) = stop_idx n xs @ stop_idx (n + length xs) ys"
  by (simp add: stop_idx_def enumerate_append_eq)

lemma stop_idx_none: "\<forall>q\<in>set ys. \<not> stop_point q \<Longrightarrow> stop_idx n ys = []"
  by (induction ys arbitrary: n) (simp_all add: stop_idx_def)

lemma stop_idx_Cons:
  "stop_idx n (x # xs) = (if stop_point x then [int n] else []) @ stop_idx (Suc n) xs"
  by (simp add: stop_idx_def)

lemma last_stop_idx:
  assumes "stop_point b" "\<forall>q\<in>set suf. \<not> stop_point q"
  shows "stop_idx 0 (pre @ b # suf) \<noteq> [] \<and>
         last (stop_idx 0 (pre @ b # suf)) = int (length pre)"
proof -
  have "stop_idx 0 (pre @ b # suf) = stop_idx 0 pre @ stop_idx (length pre) ([b] @ suf)"
    using stop_idx_append [of 0 pre "[b] @ suf"] by simp
  also have "stop_idx (length pre) ([b] @ suf) = [int (length pre)]"
    using assms by (simp add: stop_idx_Cons stop_idx_none)
  finally show ?thesis by simp
qed

lemma trimmed_history_eq:
  assumes "history = pre @ suf" "pre = [] \<or> stop_point (last pre)"
    "\<forall>q\<in>set suf. \<not> stop_point q"
  shows "(let stop_indices = stop_idx 0 history;
              last_stop_idx = (if stop_indices \<noteq> [] then last stop_indices else - 1)
          in if last_stop_idx \<noteq> - 1 then py_slice_from (last_stop_idx + 1) history
             else history) = suf"
proof (cases "pre = []")
  case True
  with assms show ?thesis by (simp add: stop_idx_none)
next
  case False
  then obtain pre' b where pre: "pre = pre' @ [b]"
    by (metis rev_exhaust)
  with assms False have b: "stop_point b" by simp
  have h: "history = pre' @ b # suf" using assms pre by simp
  note t = last_stop_idx [OF b assms(3), of pre']
  have "py_slice_from (int (length pre') + 1) history = suf"
    by (simp add: py_slice_from_def h nat_add_distrib)
  with t show ?thesis by (simp add: h Let_def)
qed

lemma fold_max_Max: "fold max (map f ps) (f p) = Max (f ` set (p # ps))"
  using Max.set_eq_fold [of "f p" "map f ps"] by simp

lemma present_answered:
  "answer q \<noteq> None \<Longrightarrow>
     (answer q \<noteq> Some '''') = answered q \<and> (answer q = Some '''') = (\<not> answered q)"
  by (cases "answer q") (simp_all add: answered_def)

lemma after_trim:
  assumes "\<forall>q\<in>set suf. answer q \<noteq> None"
  shows "(case [qa \<leftarrow> suf. answer qa \<noteq> Some ''''] of
      [] \<Rightarrow> ([], [qa \<leftarrow> suf. answer qa = Some ''''])
    | p # ps \<Rightarrow>
        (let last_answer_time = fold max (map created_at ps) (created_at p);
             filtered_unanswered =
               [qa \<leftarrow> [qa \<leftarrow> suf. answer qa = Some '''']. last_answer_time < created_at qa]
         in ([qa \<leftarrow> suf. answer qa \<noteq> Some ''''], filtered_unanswered))) = segment suf"
proof -
  have A: "[qa \<leftarrow> suf. answer qa \<noteq> Some ''''] = [qa \<leftarrow> suf. answered qa]"
    using assms by (intro filter_cong refl) (simp add: present_answered)
  have B: "[qa \<leftarrow> suf. answer qa = Some ''''] = [qa \<leftarrow> suf. \<not> answered qa]"
    using assms by (intro filter_cong refl) (simp add: present_answered)
  show ?thesis
  proof (cases "[qa \<leftarrow> suf. answered qa]")
    case Nil
    then show ?thesis by (simp add: A B segment_def)
  next
    case (Cons p ps)
    then show ?thesis
      by (simp add: A B segment_def fold_max_Max Let_def conj_commute
          del: Max_insert set_simps)
  qed
qed

text \<open>
  Every history splits in this way: the part up to and including its last boundary
  turn (empty when there is none), and the boundary-free rest.
\<close>

lemma boundary_split_exists:
  "\<exists>pre suf. history = pre @ suf \<and> (pre = [] \<or> stop_point (last pre)) \<and>
     (\<forall>q\<in>set suf. \<not> stop_point q)"
proof (induction history rule: rev_induct)
  case Nil
  then show ?case by simp
next
  case (snoc x xs)
  show ?case
  proof (cases "stop_point x")
    case True
    then have "xs @ [x] = (xs @ [x]) @ [] \<and> stop_point (last (xs @ [x]))" by simp
    then show ?thesis by (metis empty_iff list.set(1))
  next
    case False
    from snoc obtain pre suf where s: "xs = pre @ suf" "pre = [] \<or> stop_point (last pre)"
      "\<forall>q\<in>set suf. \<not> stop_point q" by blast
    with False have "xs @ [x] = pre @ (suf @ [x]) \<and> (\<forall>q\<in>set (suf @ [x]). \<not> stop_point q)"
      by simp
    with s(2) show ?thesis by blast
  qed
qed

text \<open>
  On a history in which every answer is present (a string, possibly empty)
  \<^verbatim>\<open>filter_chat_history\<close> is Stage B of the specification: with the history split as
  \<open>pre @ suf\<close> at its last boundary, \<open>pre\<close> is discarded and the result is
  \<open>segment suf\<close>.
\<close>

lemma filter_chat_history_present_answers:
  assumes "history = pre @ suf" "pre = [] \<or> stop_point (last pre)"
    "\<forall>q\<in>set suf. \<not> stop_point q" "\<forall>q\<in>set history. answer q \<noteq> None"
  shows "filter_chat_history history = segment suf"
proof (cases "history = []")
  case True
  with assms have "suf = []" by simp
  with True show ?thesis by (simp add: segment_def filter_chat_history_def)
next
  case False
  have p: "\<forall>q\<in>set suf. answer q \<noteq> None" using assms(1,4) by simp
  note T = trimmed_history_eq [OF assms(1-3), unfolded stop_idx_def Let_def]
  show ?thesis
    unfolding filter_chat_history_def Let_def T
    by (simp only: False if_False after_trim [OF p, unfolded Let_def])
qed

lemma filter_chat_history_present_answers_example:
  "filter_chat_history [t_b, t_q1, t_a1, t_q2] = ([t_a1], [t_q2])"
proof -
  have 1: "[t_b, t_q1, t_a1, t_q2] = [t_b] @ [t_q1, t_a1, t_q2]" by simp
  have 2: "[t_b] = [] \<or> stop_point (last [t_b])" by (simp add: t_b_def turn_def)
  have 3: "\<forall>q\<in>set [t_q1, t_a1, t_q2]. \<not> stop_point q"
    by (simp add: t_q1_def t_a1_def t_q2_def turn_def)
  have 4: "\<forall>q\<in>set [t_b, t_q1, t_a1, t_q2]. answer q \<noteq> None"
    by (simp add: t_b_def t_q1_def t_a1_def t_q2_def turn_def)
  have "segment [t_q1, t_a1, t_q2] = ([t_a1], [t_q2])"
    by (simp add: segment_def answered_def t_q1_def t_a1_def t_q2_def turn_def)
  with filter_chat_history_present_answers [OF 1 2 3 4] show ?thesis by simp
qed

text \<open>
  C1. The history holds, after no boundary, a question with the empty answer created at
  time 3 and a turn with an absent answer created at time 5. Both are unanswered, there
  is no answered pair, and so the claim returns no pair and both turns unchanged
  (\<open>segment\<close>). \<^verbatim>\<open>filter_chat_history\<close> returns the turn with the absent answer as a
  pair and drops the other one as stale.
\<close>

theorem filter_chat_history_absent_answer:
  "filter_chat_history [s_q, s_p] = ([s_p], []) \<and> segment [s_q, s_p] = ([], [s_q, s_p])"
  by (simp add: filter_chat_history_def segment_def answered_def s_q_def s_p_def turn_def)

text \<open>
  C2. A turn whose answer is absent is returned among the answered pairs:
  \<^verbatim>\<open>None != ""\<close> holds, so \<^verbatim>\<open>filter_chat_history\<close> puts it into \<^verbatim>\<open>pairs\<close>, and
  \<^verbatim>\<open>get_history_of_chat\<close> counts it against \<^verbatim>\<open>limit_pairs\<close> (of two such turns and
  a limit of 1 only the later one is returned).
\<close>

theorem absent_answer_is_pair:
  "filter_chat_history [t_pending] = ([t_pending], []) \<and>
   get_history_of_chat store_pending now0 1 30 1 = Inr [t_pending2]"
  by (simp add: filter_chat_history_def get_history_of_chat_def recent_qa_query_def
      user_by_id_def store_pending_def alice_def t_pending_def t_pending2_def turn_def
      now0_def minute_def py_slice_from_def timedelta_minutes_def datetime_sub_def
      timedelta_min_def timedelta_max_def datetime_min_def datetime_max_def)

section \<open>The history window\<close>

lemma get_history_of_chat_known:
  assumes "user_by_id db uid = Some u" "timedelta_minutes time = Inr delta"
    "datetime_sub now delta = Inr cutoff"
  shows "get_history_of_chat db now uid time limit_pairs =
           Inr ((if limit_pairs < int (length [qa \<leftarrow> recent_qa_query db (u_id u) cutoff.
                                                 answer qa \<noteq> Some ''''])
                 then py_slice_from (- limit_pairs)
                        [qa \<leftarrow> recent_qa_query db (u_id u) cutoff. answer qa \<noteq> Some '''']
                 else [qa \<leftarrow> recent_qa_query db (u_id u) cutoff. answer qa \<noteq> Some ''''])
                @ [qa \<leftarrow> recent_qa_query db (u_id u) cutoff. answer qa = Some ''''])"
  using assms by (simp add: get_history_of_chat_def Let_def)

lemma get_history_of_chat_unknown:
  "user_by_id db uid = None \<Longrightarrow> get_history_of_chat db now uid time limit_pairs = Inr []"
  by (simp add: get_history_of_chat_def)

text \<open>
  With a positive \<^verbatim>\<open>limit_pairs\<close> and a cutoff in range the cap works as the
  specification says: the result is the last \<^verbatim>\<open>limit_pairs\<close> turns of
  \<^verbatim>\<open>full_pairs\<close> followed by all turns of the window with the empty answer.
\<close>

lemma get_history_of_chat_positive_limit:
  assumes "user_by_id db uid = Some u" "timedelta_minutes time = Inr delta"
    "datetime_sub now delta = Inr cutoff" "0 < limit_pairs"
  shows "get_history_of_chat db now uid time limit_pairs =
           Inr (drop (length [qa \<leftarrow> recent_qa_query db (u_id u) cutoff.
                                answer qa \<noteq> Some ''''] - nat limit_pairs)
                  [qa \<leftarrow> recent_qa_query db (u_id u) cutoff. answer qa \<noteq> Some '''']
                @ [qa \<leftarrow> recent_qa_query db (u_id u) cutoff. answer qa = Some ''''])"
proof -
  have "nat (int n - limit_pairs) = n - nat limit_pairs" for n
    using assms(4) by simp
  with assms(4) show ?thesis
    by (simp add: get_history_of_chat_known [OF assms(1-3)] py_slice_from_def)
qed

text \<open>
  A cutoff before \<^verbatim>\<open>datetime.min\<close> is a fault of the date arithmetic: 2000000000
  minutes before \<open>now0\<close> there is no date.
\<close>

lemma get_history_of_chat_overflow:
  "get_history_of_chat store_chat now0 1 2000000000 5 = Inl OverflowError"
  by (simp add: get_history_of_chat_def user_by_id_def store_chat_def alice_def now0_def
      minute_def timedelta_minutes_def datetime_sub_def timedelta_min_def timedelta_max_def
      datetime_min_def datetime_max_def)

text \<open>
  C3. With \<^verbatim>\<open>limit_pairs = 0\<close> and answered turns in the window the cap is not
  applied: \<^verbatim>\<open>full_pairs[-0:]\<close> is the whole list, so both answered turns are
  returned where the claim keeps none of them.
\<close>

theorem get_history_of_chat_zero_limit:
  "get_history_of_chat store_chat now0 1 30 0 = Inr [c_a1, c_a2, c_q]"
  by (simp add: get_history_of_chat_def recent_qa_query_def user_by_id_def store_chat_def
      alice_def c_a1_def c_a2_def c_q_def turn_def now0_def minute_def py_slice_from_def
      timedelta_minutes_def datetime_sub_def timedelta_min_def timedelta_max_def
      datetime_min_def datetime_max_def)

text \<open>
  C9, as the claim states it, fails: with \<^verbatim>\<open>limit_pairs = -1\<close> and the default window
  of 30 minutes the call returns a list and raises nothing.
\<close>

theorem get_history_of_chat_negative_returns:
  "get_history_of_chat store_chat now0 1 30 (- 1) = Inr [c_a2, c_q]"
  by (simp add: get_history_of_chat_def recent_qa_query_def user_by_id_def store_chat_def
      alice_def c_a1_def c_a2_def c_q_def turn_def now0_def minute_def py_slice_from_def
      timedelta_minutes_def datetime_sub_def timedelta_min_def timedelta_max_def
      datetime_min_def datetime_max_def)

text \<open>
  C9, amended. \<^verbatim>\<open>limit_pairs\<close> is not validated, and a negative value raises nothing
  of its own. For an unknown user the call returns the empty list. For a known user
  and a window whose cutoff time is a date in range, the call returns a list: turns of
  the window, ending with all turns of the window whose answer is the empty string.
\<close>

theorem get_history_of_chat_negative_limit:
  assumes "limit_pairs < 0"
  shows "(user_by_id db uid = None \<longrightarrow>
            get_history_of_chat db now uid time limit_pairs = Inr []) \<and>
         (user_by_id db uid = Some u \<and> timedelta_minutes time = Inr delta \<and>
          datetime_sub now delta = Inr cutoff \<longrightarrow>
            (\<exists>ps. get_history_of_chat db now uid time limit_pairs =
                     Inr (ps @ [qa \<leftarrow> recent_qa_query db (u_id u) cutoff.
                                  answer qa = Some '''']) \<and>
                   set ps \<subseteq> set (recent_qa_query db (u_id u) cutoff)))"
proof (intro conjI impI)
  assume "user_by_id db uid = None"
  then show "get_history_of_chat db now uid time limit_pairs = Inr []"
    by (rule get_history_of_chat_unknown)
next
  assume h: "user_by_id db uid = Some u \<and> timedelta_minutes time = Inr delta \<and>
    datetime_sub now delta = Inr cutoff"
  let ?w = "recent_qa_query db (u_id u) cutoff"
  let ?ps = "drop (nat (- limit_pairs)) [qa \<leftarrow> ?w. answer qa \<noteq> Some '''']"
  from h have k: "user_by_id db uid = Some u" "timedelta_minutes time = Inr delta"
    "datetime_sub now delta = Inr cutoff" by simp_all
  from assms have 1: "get_history_of_chat db now uid time limit_pairs =
      Inr (?ps @ [qa \<leftarrow> ?w. answer qa = Some ''''])"
    by (simp add: get_history_of_chat_known [OF k] py_slice_from_def)
  have "set ?ps \<subseteq> set [qa \<leftarrow> ?w. answer qa \<noteq> Some '''']"
    by (rule set_drop_subset)
  then have 2: "set ?ps \<subseteq> set ?w" by auto
  from 1 2 show "\<exists>ps. get_history_of_chat db now uid time limit_pairs =
      Inr (ps @ [qa \<leftarrow> ?w. answer qa = Some '''']) \<and> set ps \<subseteq> set ?w"
    by blast
qed

theorem get_history_of_chat_negative_limit_witness:
  "(- 2 :: int) < 0 \<and>
   user_by_id store_empty 1 = None \<and>
   get_history_of_chat store_empty now0 1 30 (- 2) = Inr [] \<and>
   user_by_id store_chat 1 = Some alice \<and>
   timedelta_minutes 30 = Inr 1800000000 \<and>
   datetime_sub now0 1800000000 = Inr 200000000 \<and>
   (\<exists>ps. get_history_of_chat store_chat now0 1 30 (- 2) =
            Inr (ps @ [qa \<leftarrow> recent_qa_query store_chat (u_id alice) 200000000.
                         answer qa = Some '''']) \<and>
          set ps \<subseteq> set (recent_qa_query store_chat (u_id alice) 200000000))"
proof -
  have n: "(- 2 :: int) < 0" by simp
  have e: "user_by_id store_empty 1 = None"
    by (simp add: user_by_id_def store_empty_def)
  have a: "user_by_id store_chat 1 = Some alice"
    by (simp add: user_by_id_def store_chat_def alice_def)
  have t: "timedelta_minutes 30 = Inr 1800000000"
    by (simp add: timedelta_minutes_def minute_def timedelta_min_def timedelta_max_def)
  have d: "datetime_sub now0 1800000000 = Inr 200000000"
    by (simp add: datetime_sub_def now0_def datetime_min_def datetime_max_def)
  from get_history_of_chat_negative_limit
         [OF n, where db = store_empty and uid = 1 and now = now0 and time = 30] e
  have 1: "get_history_of_chat store_empty now0 1 30 (- 2) = Inr []" by simp
  from get_history_of_chat_negative_limit
         [OF n, where db = store_chat and uid = 1 and u = alice and now = now0
            and time = 30 and delta = 1800000000 and cutoff = 200000000] a t d
  have 2: "\<exists>ps. get_history_of_chat store_chat now0 1 30 (- 2) =
            Inr (ps @ [qa \<leftarrow> recent_qa_query store_chat (u_id alice) 200000000.
                         answer qa = Some '''']) \<and>
          set ps \<subseteq> set (recent_qa_query store_chat (u_id alice) 200000000)"
    by simp
  from n e a t d 1 2 show ?thesis by simp
qed

section \<open>Users\<close>

lemma find_append_new:
  "find P xs = None \<Longrightarrow> P x \<Longrightarrow> find P (xs @ [x]) = Some x"
  by (induction xs) (simp_all split: if_splits)

text \<open>
  C6. Calling \<^verbatim>\<open>add_user\<close> twice with the same present external id \<open>x\<close> raises
  nothing and returns the same user id both times. The first call answers
  \<^verbatim>\<open>created = True\<close> when it is the first contact (no user with \<open>x\<close> is stored yet), and
  only then; the second call answers \<^verbatim>\<open>created = False\<close> and leaves the store, and so
  the user, as the first call left it.
\<close>

theorem add_user_twice:
  "\<exists>db1 uid.
     add_user db (Some x) = Inr (db1, user_by_max_id db x = None, uid) \<and>
     add_user db1 (Some x) = Inr (db1, False, uid)"
proof (cases "user_by_max_id db x")
  case None
  let ?new = "\<lparr>u_id = user_seq db, max_id = Some x, is_subscribed = True\<rparr>"
  let ?db1 = "db\<lparr>users := users db @ [?new], user_seq := user_seq db + 1\<rparr>"
  have 1: "add_user db (Some x) = Inr (?db1, True, user_seq db)"
    using None by (simp add: add_user_def)
  have "find (\<lambda>u. max_id u = Some x) (users db @ [?new]) = Some ?new"
    using None by (intro find_append_new) (simp_all add: user_by_max_id_def)
  then have "user_by_max_id ?db1 x = Some ?new"
    by (simp add: user_by_max_id_def)
  then have 2: "add_user ?db1 (Some x) = Inr (?db1, False, user_seq db)"
    by (simp add: add_user_def)
  from None 1 2 show ?thesis by simp
next
  case (Some u)
  then have "add_user db (Some x) = Inr (db, False, u_id u)"
    by (simp add: add_user_def)
  with Some show ?thesis by simp
qed

text \<open>
  C7. With \<^verbatim>\<open>max_id=None\<close> the variable \<^verbatim>\<open>user\<close> is never assigned, and the test
  \<^verbatim>\<open>if user is None\<close> raises \<^verbatim>\<open>UnboundLocalError\<close>, whatever the store holds: no user
  is inserted and nothing is returned.
\<close>

theorem add_user_absent_id_raises:
  "add_user db None = Inl UnboundLocalError"
  by (simp add: add_user_def)

lemma find_commit_user:
  "find (\<lambda>v. u_id v = uid) us = Some u \<Longrightarrow> u_id u' = uid \<Longrightarrow>
     find (\<lambda>v. u_id v = uid) (commit_user u' us) = Some u'"
  by (induction us) (auto split: if_splits)

lemma user_by_id_Some: "user_by_id db uid = Some u \<Longrightarrow> u_id u = uid"
  by (auto simp: user_by_id_def find_Some_iff)

text \<open>
  C8, as the claim states it, fails: for an unknown user \<^verbatim>\<open>subscribe_user\<close> returns
  \<^verbatim>\<open>False\<close>, the value it also returns when it has just unsubscribed an existing user.
\<close>

theorem subscribe_user_not_found_is_False:
  "user_by_id store_empty 1 = None \<and>
   returned (subscribe_user store_empty 1) = Inr False \<and>
   user_by_id store_alice 1 = Some alice \<and>
   returned (subscribe_user store_alice 1) = Inr False"
  by (simp add: subscribe_user_def user_by_id_def returned_def store_empty_def
      store_alice_def alice_def)

text \<open>
  C8, amended. For a user id with no matching user \<^verbatim>\<open>subscribe_user\<close> returns
  \<^verbatim>\<open>False\<close> and leaves the store as it is. For an existing user it flips
  \<^verbatim>\<open>is_subscribed\<close>, stores the flipped user and returns the new value.
\<close>

theorem subscribe_user_toggles:
  "(user_by_id db uid = None \<longrightarrow> subscribe_user db uid = Inr (db, False)) \<and>
   (user_by_id db uid = Some u \<longrightarrow>
      (\<exists>db'. subscribe_user db uid = Inr (db', \<not> is_subscribed u) \<and>
             user_by_id db' uid = Some (u\<lparr>is_subscribed := \<not> is_subscribed u\<rparr>)))"
proof (intro conjI impI)
  assume "user_by_id db uid = None"
  then show "subscribe_user db uid = Inr (db, False)"
    by (simp add: subscribe_user_def)
next
  assume u: "user_by_id db uid = Some u"
  let ?u' = "u\<lparr>is_subscribed := \<not> is_subscribed u\<rparr>"
  let ?db' = "db\<lparr>users := commit_user ?u' (users db)\<rparr>"
  have 1: "subscribe_user db uid = Inr (?db', \<not> is_subscribed u)"
    using u by (simp add: subscribe_user_def)
  have "u_id ?u' = uid" using user_by_id_Some [OF u] by simp
  with u have "find (\<lambda>v. u_id v = uid) (commit_user ?u' (users db)) = Some ?u'"
    unfolding user_by_id_def by (rule find_commit_user)
  then have 2: "user_by_id ?db' uid = Some ?u'"
    by (simp add: user_by_id_def)
  from 1 2 show "\<exists>db'. subscribe_user db uid = Inr (db', \<not> is_subscribed u) \<and>
      user_by_id db' uid = Some ?u'"
    by blast
qed

theorem subscribe_user_toggles_witness:
  "user_by_id store_empty 1 = None \<and>
   subscribe_user store_empty 1 = Inr (store_empty, False) \<and>
   user_by_id store_alice 1 = Some alice \<and>
   (\<exists>db'. subscribe_user store_alice 1 = Inr (db', \<not> is_subscribed alice) \<and>
          user_by_id db' 1 = Some (alice\<lparr>is_subscribed := \<not> is_subscribed alice\<rparr>))"
proof -
  have e: "user_by_id store_empty 1 = None"
    by (simp add: user_by_id_def store_empty_def)
  have a: "user_by_id store_alice 1 = Some alice"
    by (simp add: user_by_id_def store_alice_def alice_def)
  from subscribe_user_toggles [where db = store_empty and uid = 1] e
  have 1: "subscribe_user store_empty 1 = Inr (store_empty, False)" by simp
  from subscribe_user_toggles [where db = store_alice and uid = 1 and u = alice] a
  have 2: "\<exists>db'. subscribe_user store_alice 1 = Inr (db', \<not> is_subscribed alice) \<and>
          user_by_id db' 1 = Some (alice\<lparr>is_subscribed := \<not> is_subscribed alice\<rparr>)"
    by simp
  from e a 1 2 show ?thesis by simp
qed

section \<open>Recording a turn\<close>

text \<open>
  C5. When the store assigns no id to the new row, \<^verbatim>\<open>add_question_answer\<close> fails
  with the \<^verbatim>\<open>FlushError\<close> of \<^verbatim>\<open>session.flush()\<close>, before its test
  \<^verbatim>\<open>question_answer.id is None\<close> is reached. Whenever it returns a value, that value is
  the id the store assigned: 0 is never returned to mean that there is no id.
\<close>

theorem add_question_answer_fails_loudly:
  "(qa_seq db = None \<longrightarrow> add_question_answer db now q a url uid = Inl FlushError) \<and>
   (add_question_answer db now q a url uid = Inr (db', r) \<longrightarrow> qa_seq db = Some r)"
  by (cases "qa_seq db") (auto simp: add_question_answer_def session_flush_def Let_def)

theorem add_question_answer_fails_loudly_witness:
  "qa_seq store_no_key = None \<and>
   add_question_answer store_no_key now0 ''q'' ''a'' None 1 = Inl FlushError \<and>
   add_question_answer store_alice now0 ''q'' ''a'' None 1 =
     Inr (store_alice\<lparr>question_answers :=
            [\<lparr>qa_id = Some 1, question = ''q'', answer = Some ''a'', confluence_url = None,
              score = None, user_id = 1, created_at = now0, stop_point = False\<rparr>],
          qa_seq := Some 2\<rparr>, 1) \<and>
   qa_seq store_alice = Some 1"
proof -
  let ?db' = "store_alice\<lparr>question_answers :=
            [\<lparr>qa_id = Some 1, question = ''q'', answer = Some ''a'', confluence_url = None,
              score = None, user_id = 1, created_at = now0, stop_point = False\<rparr>],
          qa_seq := Some 2\<rparr>"
  have n: "qa_seq store_no_key = None" by (simp add: store_no_key_def)
  have s: "add_question_answer store_alice now0 ''q'' ''a'' None 1 = Inr (?db', 1)"
    by (simp add: add_question_answer_def session_flush_def store_alice_def Let_def)
  from add_question_answer_fails_loudly
         [where db = store_no_key and now = now0 and q = "''q''" and a = "''a''"
            and url = None and uid = 1] n
  have 1: "add_question_answer store_no_key now0 ''q'' ''a'' None 1 = Inl FlushError"
    by simp
  from add_question_answer_fails_loudly
         [where db = store_alice and now = now0 and q = "''q''" and a = "''a''"
            and url = None and uid = 1 and db' = ?db' and r = 1] s
  have 2: "qa_seq store_alice = Some 1" by simp
  from n s 1 2 show ?thesis by simp
qed

section \<open>The spam check\<close>

lemma kth_most_recent_unique:
  assumes "kth_most_recent k qs t" "kth_most_recent k qs t'"
  shows "t = t'"
proof -
  have gen: "\<not> a < b" if a: "kth_most_recent k qs a" and b: "kth_most_recent k qs b" for a b
  proof
    assume "a < b"
    then have "length [q \<leftarrow> qs. b \<le> created_at q] \<le> length [q \<leftarrow> qs. a < created_at q]"
      by (induction qs) auto
    with a b show False by (simp add: kth_most_recent_def)
  qed
  from gen [OF assms] gen [OF assms(2) assms(1)] show ?thesis by simp
qed

lemma kth_most_recent_mset:
  assumes "mset xs = mset ys"
  shows "kth_most_recent k xs t = kth_most_recent k ys t"
proof -
  have len: "length (filter P xs) = length (filter P ys)" for P
  proof -
    have "mset (filter P xs) = mset (filter P ys)" using assms by simp
    then show ?thesis by (rule mset_eq_length)
  qed
  have "set xs = set ys" using assms by (rule mset_eq_setD)
  with len show ?thesis by (simp add: kth_most_recent_def)
qed

lemma desc_nth_mono:
  assumes "sorted (map (\<lambda>q. - created_at q) xs)" "i \<le> j" "j < length xs"
  shows "created_at (xs ! j) \<le> created_at (xs ! i)"
proof -
  have "map (\<lambda>q. - created_at q) xs ! i \<le> map (\<lambda>q. - created_at q) xs ! j"
    using assms by (intro sorted_nth_mono) simp_all
  with assms show ?thesis by simp
qed

lemma desc_nth_is_kth:
  assumes s: "sorted (map (\<lambda>q. - created_at q) xs)" and k: "k < length xs"
  shows "kth_most_recent (Suc k) xs (created_at (xs ! k))"
proof -
  let ?t = "created_at (xs ! k)"
  have later: "[q \<leftarrow> drop k xs. ?t < created_at q] = []"
  proof -
    have "\<not> ?t < created_at q" if "q \<in> set (drop k xs)" for q
    proof -
      from that obtain i where "i < length (drop k xs)" "q = drop k xs ! i"
        by (auto simp: in_set_conv_nth)
      then have "q = xs ! (k + i)" "k + i < length xs" by simp_all
      with desc_nth_mono [OF s, of k "k + i"] show ?thesis by simp
    qed
    then show ?thesis by (simp add: filter_empty_conv)
  qed
  have "[q \<leftarrow> xs. ?t < created_at q] = [q \<leftarrow> take k xs @ drop k xs. ?t < created_at q]"
    by simp
  also have "\<dots> = [q \<leftarrow> take k xs. ?t < created_at q]"
    using later by (simp only: filter_append append_Nil2)
  finally have "length [q \<leftarrow> xs. ?t < created_at q] \<le> length (take k xs)"
    by (simp only: length_filter_le)
  then have 1: "length [q \<leftarrow> xs. ?t < created_at q] < Suc k" by simp
  have early: "[q \<leftarrow> take (Suc k) xs. ?t \<le> created_at q] = take (Suc k) xs"
  proof -
    have "?t \<le> created_at q" if "q \<in> set (take (Suc k) xs)" for q
    proof -
      from that obtain i where "i < length (take (Suc k) xs)" "q = take (Suc k) xs ! i"
        by (auto simp: in_set_conv_nth)
      then have "q = xs ! i" "i \<le> k" by simp_all
      with desc_nth_mono [OF s, of i k] k show ?thesis by simp
    qed
    then show ?thesis by (simp add: filter_id_conv)
  qed
  have "[q \<leftarrow> xs. ?t \<le> created_at q] =
        [q \<leftarrow> take (Suc k) xs @ drop (Suc k) xs. ?t \<le> created_at q]"
    by simp
  also have "\<dots> = take (Suc k) xs @ [q \<leftarrow> drop (Suc k) xs. ?t \<le> created_at q]"
    using early by (simp only: filter_append)
  finally have "length (take (Suc k) xs) \<le> length [q \<leftarrow> xs. ?t \<le> created_at q]"
    by simp
  with k have 2: "Suc k \<le> length [q \<leftarrow> xs. ?t \<le> created_at q]" by simp
  have 3: "?t \<in> created_at ` set xs" using k by simp
  from 1 2 3 show ?thesis by (simp only: kth_most_recent_def simp_thms)
qed

lemma user_question_answers_kth:
  assumes "k < length (rows_of_user db (u_id u))"
  shows "kth_most_recent (Suc k) (rows_of_user db (u_id u))
           (created_at (user_question_answers db u ! k))"
proof -
  let ?xs = "user_question_answers db u"
  have s: "sorted (map (\<lambda>q. - created_at q) ?xs)"
    by (simp add: user_question_answers_def)
  have m: "mset ?xs = mset (rows_of_user db (u_id u))"
    by (simp add: user_question_answers_def)
  then have "length ?xs = length (rows_of_user db (u_id u))" by (rule mset_eq_length)
  with assms have "k < length ?xs" by simp
  from desc_nth_is_kth [OF s this] kth_most_recent_mset [OF m] show ?thesis by simp
qed

text \<open>
  C4. For an existing user \<^verbatim>\<open>check_spam\<close> returns true exactly when the user has more
  than 5 turns and the creation time of the 5th most recent one is later than 60 seconds
  before the evaluation time \<open>now\<close>; with exactly 5 turns it returns false. The 5th most
  recent creation time is given by counting turns (\<open>kth_most_recent\<close>), not by the
  order in which the store loads them.
\<close>

theorem check_spam_iff:
  assumes "user_by_id db uid = Some u"
  shows "check_spam db now uid =
           Inr (5 < length (rows_of_user db uid) \<and>
                (\<exists>t. kth_most_recent 5 (rows_of_user db uid) t \<and> now - minute < t))
         \<and> (length (rows_of_user db uid) = 5 \<longrightarrow> check_spam db now uid = Inr False)"
proof -
  have uid: "u_id u = uid" using assms by (rule user_by_id_Some)
  let ?rows = "rows_of_user db uid"
  let ?qas = "user_question_answers db u"
  have len: "length ?qas = length ?rows"
    by (simp add: user_question_answers_def uid)
  have cs: "check_spam db now uid =
      (if 5 < length ?rows then Inr (now - minute < created_at (?qas ! 4)) else Inr False)"
    using assms len by (simp add: check_spam_def Let_def)
  show ?thesis
  proof (cases "5 < length ?rows")
    case True
    then have "4 < length (rows_of_user db (u_id u))" by (simp add: uid)
    from user_question_answers_kth [OF this]
    have k: "kth_most_recent 5 ?rows (created_at (?qas ! 4))"
      by (simp add: uid eval_nat_numeral)
    have "(\<exists>t. kth_most_recent 5 ?rows t \<and> now - minute < t) =
          (now - minute < created_at (?qas ! 4))"
      using k kth_most_recent_unique [OF k] by blast
    with True cs show ?thesis by simp
  next
    case False
    with cs show ?thesis by simp
  qed
qed

theorem check_spam_iff_witness:
  "user_by_id store_burst 1 = Some alice \<and>
   length (rows_of_user store_burst 1) = 6 \<and>
   kth_most_recent 5 (rows_of_user store_burst 1) 1950000000 \<and>
   check_spam store_burst now0 1 = Inr True"
proof -
  have a: "user_by_id store_burst 1 = Some alice"
    by (simp add: user_by_id_def store_burst_def alice_def)
  have r: "rows_of_user store_burst 1 =
      [turn 1 (Some ''a'') 1935000000 False, turn 2 (Some ''a'') 1950000000 False,
       turn 3 (Some ''a'') 1960000000 False, turn 4 (Some ''a'') 1970000000 False,
       turn 5 (Some ''a'') 1980000000 False, turn 6 (Some ''a'') 1995000000 False]"
    by (simp add: rows_of_user_def store_burst_def turn_def)
  have l: "length (rows_of_user store_burst 1) = 6" by (simp add: r)
  have k: "kth_most_recent 5 (rows_of_user store_burst 1) 1950000000"
    by (simp add: r kth_most_recent_def turn_def)
  have "now0 - minute < 1950000000" by (simp add: now0_def minute_def)
  with k have "\<exists>t. kth_most_recent 5 (rows_of_user store_burst 1) t \<and> now0 - minute < t"
    by blast
  with check_spam_iff [OF a, of now0] l have "check_spam store_burst now0 1 = Inr True"
    by simp
  with a l k show ?thesis by simp
qed

text \<open>
  C10. For a user id with no matching user \<^verbatim>\<open>check_spam\<close> returns false and raises
  nothing.
\<close>

theorem check_spam_unknown_user:
  "user_by_id db uid = None \<Longrightarrow> check_spam db now uid = Inr False"
  by (simp add: check_spam_def)

theorem check_spam_unknown_user_witness:
  "user_by_id store_empty 1 = None \<and> check_spam store_empty now0 1 = Inr False"
proof -
  have e: "user_by_id store_empty 1 = None"
    by (simp add: user_by_id_def store_empty_def)
  from check_spam_unknown_user [OF e, of now0] e show ?thesis by simp
qed

end
